theory Spec2Isabelle
  imports Complex_Main "HOL-Library.AList" "HOL-Library.Log_Nat"
begin

section \<open>Python values used by the analysis pipeline\<close>

text \<open>
  Scores, metrics and thresholds are Python floats. A finite float is the real number
  it denotes. The agents' curves and bands are modelled in exact arithmetic on these
  reals; the engine's weighted sum, whose value to the last digit is at stake, is
  modelled with every product and sum rounded to the nearest double. The special float
  values only matter for the JSON serializer, where a float is a \<open>pyfloat\<close>: a finite
  real, an infinity or NaN.
\<close>

datatype pyfloat = Fin real | PosInf | NegInf | NaN

datatype py_error = ValueError | KeyError | Exception string

text \<open>
  The objects that reach \<open>make_json_serializable\<close>: built-in values, numpy scalars and
  arrays, pandas series and frames. A dict is an association list in insertion order.
  \<open>PyOpaque\<close> stands for any other object (a timestamp, say) that \<open>pd.isna\<close> does not
  treat as missing.
\<close>

datatype pyobj =
    PyNone
  | PyBool bool
  | PyInt int
  | PyFloat pyfloat
  | PyStr string
  | PyList "pyobj list"
  | PyTuple "pyobj list"
  | PyDict "(string \<times> pyobj) list"
  | NpInteger int
  | NpFloating pyfloat
  | NpBool bool
  | NpArray "pyfloat list"
  | PdSeries "pyfloat list"
  | PdDataFrame "(string \<times> pyfloat) list list"
  | PyOpaque string

text \<open>\<open>obj.get(key)\<close> on a dict.\<close>

fun py_get :: "pyobj \<Rightarrow> string \<Rightarrow> pyobj option" where
  "py_get (PyDict items) key = map_of items key"
| "py_get obj key = None"

subsection \<open>Rounding\<close>

text \<open>
  \<open>round(x, 2)\<close>: the nearest multiple of 0.01, a tie going to the even neighbour.
\<close>

definition round_half_even :: "real \<Rightarrow> int" where
  "round_half_even x =
     (let f = \<lfloor>x\<rfloor>; d = x - of_int f
      in if d < 1 / 2 then f
         else if 1 / 2 < d then f + 1
         else if even f then f else f + 1)"

definition py_round2 :: "real \<Rightarrow> real" where
  "py_round2 x = of_int (round_half_even (x * 100)) / 100"

subsection \<open>Double-precision arithmetic\<close>

text \<open>
  \<open>binade x\<close> is the exponent of a positive real: the \<open>k\<close> with \<open>2^k \<le> x < 2^(k+1)\<close>,
  computed from the integer part of \<open>x\<close> (or of \<open>1 / x\<close> below 1).
\<close>

definition binade :: "real \<Rightarrow> int" where
  "binade x =
     (if 1 \<le> x then int (floorlog 2 (nat \<lfloor>x\<rfloor>)) - 1
      else - int (floorlog 2 (nat (\<lceil>1 / x\<rceil> - 1))))"

text \<open>
  The double nearest to a real, a tie going to the even mantissa: 53 significant bits,
  and below \<open>2^-1022\<close> the fixed spacing \<open>2^-1074\<close> of the subnormal numbers. Overflow
  to infinity (from \<open>2^1024\<close> on) is not modelled; scores stay far below it.
\<close>

definition to_double :: "real \<Rightarrow> real" where
  "to_double x =
     (if x = 0 then 0
      else (let e = max (binade \<bar>x\<bar> - 52) (- 1074)
            in of_int (round_half_even (x / 2 powi e)) * 2 powi e))"




subsection \<open>Strings and sequences\<close>

text \<open>\<open>sub in s\<close> on strings: \<open>sub\<close> occurs in \<open>s\<close> as a contiguous block.\<close>

fun str_in :: "string \<Rightarrow> string \<Rightarrow> bool" where
  "str_in sub [] = (sub = [])"
| "str_in sub (c # cs) = (take (length sub) (c # cs) = sub \<or> str_in sub cs)"

text \<open>The spec's wording of the same test: the label contains the word as a substring.\<close>

definition contains_substring :: "string \<Rightarrow> string \<Rightarrow> bool" where
  "contains_substring s sub = (\<exists>before after. s = before @ sub @ after)"

definition labels_containing :: "string \<Rightarrow> string list \<Rightarrow> int" where
  "labels_containing sub labels = int (length (filter (\<lambda>b. contains_substring b sub) labels))"

text \<open>\<open>max(xs)\<close> and \<open>min(xs)\<close>: a scan that keeps the first extreme item; empty input raises.\<close>

fun py_max :: "real list \<Rightarrow> py_error + real" where
  "py_max [] = Inl ValueError"
| "py_max (x # xs) = Inr (fold (\<lambda>item max_item. if item > max_item then item else max_item) xs x)"

fun py_min :: "real list \<Rightarrow> py_error + real" where
  "py_min [] = Inl ValueError"
| "py_min (x # xs) = Inr (fold (\<lambda>item min_item. if item < min_item then item else min_item) xs x)"

definition mean :: "real list \<Rightarrow> real" where
  "mean xs = sum_list xs / real (length xs)"

section \<open>FundamentalAnalyst\<close>

definition fundamental_weights :: "(string \<times> real) list" where
  "fundamental_weights =
     [(''revenue_growth'', 0.25),
      (''profit_margin'', 0.25),
      (''pe_ratio'', 0.20),
      (''debt_to_equity'', 0.15),
      (''roe'', 0.15)]"

definition normalize_score :: "real \<Rightarrow> string \<Rightarrow> real" where
  "normalize_score v metric_type =
     (if metric_type = ''revenue_growth'' then
        (if v > 20 then 100
         else if v > 10 then 70 + (v - 10) * 3
         else if v > 0 then 50 + v * 2
         else max 0 (50 + v * 2))
      else if metric_type = ''profit_margin'' then
        (if v > 20 then 100
         else if v > 10 then 70 + (v - 10) * 3
         else if v > 5 then 50 + (v - 5) * 4
         else max 0 (v * 10))
      else if metric_type = ''pe_ratio'' then
        (if 15 \<le> v \<and> v \<le> 25 then 100
         else if (10 \<le> v \<and> v < 15) \<or> (25 < v \<and> v \<le> 30) then 80
         else if (5 \<le> v \<and> v < 10) \<or> (30 < v \<and> v \<le> 40) then 60
         else if v < 5 \<or> (40 < v \<and> v \<le> 60) then 40
         else 20)
      else if metric_type = ''debt_to_equity'' then
        (if v < 0.3 then 100
         else if v < 0.5 then 85
         else if v < 1.0 then 70
         else if v < 2.0 then 50
         else max 0 (100 - v * 20))
      else if metric_type = ''roe'' then
        (if v > 20 then 100
         else if v > 15 then 80 + (v - 15) * 4
         else if v > 10 then 60 + (v - 10) * 4
         else max 0 (v * 6))
      else 50)"

text \<open>
  The loop of \<open>calculate_fundamental_score\<close> over \<open>metrics.items()\<close>, carrying the
  \<open>scores\<close> dict and \<open>weighted_sum\<close>.
\<close>

fun score_loop ::
  "(string \<times> real) list \<Rightarrow> (string \<times> real) list \<times> real \<Rightarrow> (string \<times> real) list \<times> real"
where
  "score_loop [] (scores, weighted_sum) = (scores, weighted_sum)"
| "score_loop ((metric, v) # rest) (scores, weighted_sum) =
     (case map_of fundamental_weights metric of
        None \<Rightarrow> score_loop rest (scores, weighted_sum)
      | Some w \<Rightarrow>
          (let normalized = normalize_score v metric
           in score_loop rest
                (AList.update metric normalized scores, weighted_sum + normalized * w)))"

text \<open>\<open>metrics\<close> is \<open>None\<close> or a dict; \<open>not metrics\<close> holds for \<open>None\<close> and for the empty dict.\<close>

definition calculate_fundamental_score ::
  "(string \<times> real) list option \<Rightarrow> real \<times> (string \<times> real) list"
where
  "calculate_fundamental_score metrics =
     (case metrics of
        None \<Rightarrow> (0, [])
      | Some items \<Rightarrow>
          if items = [] then (0, [])
          else (let (scores, weighted_sum) = score_loop items ([], 0)
                in (py_round2 weighted_sum, scores)))"

text \<open>The weight a metric name carries in the sum: its entry in the table, or nothing.\<close>

definition metric_weight :: "string \<Rightarrow> real" where
  "metric_weight metric = (case map_of fundamental_weights metric of None \<Rightarrow> 0 | Some w \<Rightarrow> w)"

definition fundamental_determine_bias :: "real \<Rightarrow> string" where
  "fundamental_determine_bias score =
     (if score \<ge> 75 then ''Bullish''
      else if score \<ge> 60 then ''Slightly Bullish''
      else if score \<ge> 45 then ''Neutral''
      else if score \<ge> 30 then ''Slightly Bearish''
      else ''Bearish'')"

section \<open>SentimentAnalyst\<close>

definition calculate_sentiment_score :: "real \<Rightarrow> real" where
  "calculate_sentiment_score average_sentiment =
     (let score = 50 + average_sentiment * 50
      in max 0 (min 100 (py_round2 score)))"

definition sentiment_determine_bias :: "real \<Rightarrow> string" where
  "sentiment_determine_bias average_sentiment =
     (if average_sentiment > 0.3 then ''Bullish''
      else if average_sentiment > 0.1 then ''Slightly Bullish''
      else if average_sentiment > - 0.1 then ''Neutral''
      else if average_sentiment > - 0.3 then ''Slightly Bearish''
      else ''Bearish'')"

section \<open>TechnicalAnalyst\<close>

text \<open>The \<open>indicators\<close> dict; a missing key is \<open>None\<close> and \<open>.get\<close> supplies the default.\<close>

record indicators =
  rsi :: "real option"
  trend :: "string option"
  macd_histogram :: "real option"
  price_position :: "real option"

definition dict_get :: "'a option \<Rightarrow> 'a \<Rightarrow> 'a" where
  "dict_get entry dflt = (case entry of None \<Rightarrow> dflt | Some v \<Rightarrow> v)"

text \<open>
  \<open>calculate_technical_score\<close> adds four terms to a neutral 50. The first three are
  chains of tests in the source and are named here: the RSI term (lines 145 to 150), the
  trend term (lines 154 to 161) and the MACD term (lines 165 to 168).
\<close>

definition rsi_contribution :: "real \<Rightarrow> real" where
  "rsi_contribution r =
     (if 30 \<le> r \<and> r \<le> 70 then (r - 50) * 0.3
      else if r > 70 then - ((r - 70) * 0.5)
      else (30 - r) * 0.5)"

definition trend_contribution :: "string \<Rightarrow> real" where
  "trend_contribution t =
     (if t = ''Strong Uptrend'' then 20
      else if t = ''Weak Uptrend'' then 10
      else if t = ''Strong Downtrend'' then - 20
      else if t = ''Weak Downtrend'' then - 10
      else 0)"

definition macd_contribution :: "real \<Rightarrow> real" where
  "macd_contribution macd_hist =
     (if macd_hist > 0 then min 10 (macd_hist * 100) else max (- 10) (macd_hist * 100))"

definition calculate_technical_score :: "indicators \<Rightarrow> real" where
  "calculate_technical_score ind =
     (let score = 50;
          score = score + rsi_contribution (dict_get (rsi ind) 50);
          score = score + trend_contribution (dict_get (trend ind) ''Unknown'');
          score = score + macd_contribution (dict_get (macd_histogram ind) 0);
          score = score + (dict_get (price_position ind) 0.5 - 0.5) * 20
      in max 0 (min 100 (py_round2 score)))"

definition technical_determine_bias :: "real \<Rightarrow> string \<Rightarrow> real \<Rightarrow> string" where
  "technical_determine_bias score trend' rsi' =
     (if score \<ge> 70 then ''Bullish''
      else if score \<ge> 55 then
        (if rsi' > 65 then ''Bullish but cautious'' else ''Slightly Bullish'')
      else if score \<ge> 45 then ''Neutral''
      else if score \<ge> 30 then ''Slightly Bearish''
      else ''Bearish'')"

text \<open>
  What the data provider does on \<open>ticker.history\<close>: it raises, or it returns a frame of
  daily bars (possibly with no rows).
\<close>

datatype 'a reply = Raised | Returned 'a

record bar =
  bar_open :: real
  bar_high :: real
  bar_low :: real
  bar_close :: real
  bar_volume :: int

type_synonym frame = "bar list"

definition ta_fetch_price_data :: "frame reply \<Rightarrow> frame option" where
  "ta_fetch_price_data history =
     (case history of
        Raised \<Rightarrow> None
      | Returned df \<Rightarrow> if df = [] then None else Some df)"

definition ta_default_result :: pyobj where
  "ta_default_result =
     PyDict [(''score'', PyInt 50),
             (''bias'', PyStr ''Unknown''),
             (''insights'', PyList [PyStr ''Unable to fetch price data'']),
             (''indicators'', PyDict [])]"

text \<open>
  \<open>TechnicalAnalyst.analyze\<close>. The indicator computations on a non-empty frame (pandas
  rolling windows and moving averages) are the parameter \<open>on_data\<close>, which may raise.
\<close>

definition technical_analyze ::
  "(frame \<Rightarrow> py_error + pyobj) \<Rightarrow> frame reply \<Rightarrow> py_error + pyobj"
where
  "technical_analyze on_data history =
     (case ta_fetch_price_data history of
        None \<Rightarrow> Inr ta_default_result
      | Some df \<Rightarrow> if df = [] then Inr ta_default_result else on_data df)"

section \<open>RiskManager\<close>

definition rm_fetch_price_data :: "frame reply \<Rightarrow> frame option" where
  "rm_fetch_price_data history =
     (case history of
        Raised \<Rightarrow> None
      | Returned df \<Rightarrow> if df = [] then None else Some df)"

definition rm_default_result :: pyobj where
  "rm_default_result =
     PyDict [(''risk_level'', PyStr ''Unknown''),
             (''volatility'', PyInt 0),
             (''max_drawdown'', PyInt 0),
             (''recommendations'', PyList [PyStr ''Unable to fetch price data'']),
             (''metrics'', PyDict [])]"

definition risk_analyze ::
  "(frame \<Rightarrow> py_error + pyobj) \<Rightarrow> frame reply \<Rightarrow> py_error + pyobj"
where
  "risk_analyze on_data history =
     (case rm_fetch_price_data history of
        None \<Rightarrow> Inr rm_default_result
      | Some df \<Rightarrow> if df = [] then Inr rm_default_result else on_data df)"

text \<open>
  \<open>df['Close'].pct_change().dropna()\<close> on strictly positive closing prices: the change
  of each close relative to the one before; the first row has none and is dropped.
\<close>

definition pct_change :: "real list \<Rightarrow> real list" where
  "pct_change closes = map (\<lambda>(prev, cur). (cur - prev) / prev) (zip closes (tl closes))"

definition tail :: "nat \<Rightarrow> 'a list \<Rightarrow> 'a list" where
  "tail n xs = drop (length xs - n) xs"

definition calculate_risk_reward_ratio :: "real list \<Rightarrow> nat \<Rightarrow> pyobj" where
  "calculate_risk_reward_ratio closes lookback =
     (let recent_data = tail lookback closes
      in if length recent_data < 2 then PyInt 0
         else
           (let returns = pct_change recent_data;
                gains = filter (\<lambda>r. r > 0) returns;
                losses = filter (\<lambda>r. r < 0) returns
            in if length losses = 0 then PyFloat PosInf
               else
                 (let avg_gain = (if length gains > 0 then mean gains else 0);
                      avg_loss = \<bar>mean losses\<bar>
                  in if avg_loss = 0 then PyFloat PosInf
                     else NpFloating (Fin (avg_gain / avg_loss)))))"

text \<open>The three bands of \<open>assess_risk_level\<close> and their sum (lines 154 to 184).\<close>

definition volatility_band :: "real \<Rightarrow> int" where
  "volatility_band volatility =
     (if volatility > 40 then 40
      else if volatility > 30 then 30
      else if volatility > 20 then 20
      else 10)"

definition drawdown_band :: "real \<Rightarrow> int" where
  "drawdown_band max_drawdown =
     (if \<bar>max_drawdown\<bar> > 30 then 40
      else if \<bar>max_drawdown\<bar> > 20 then 30
      else if \<bar>max_drawdown\<bar> > 10 then 20
      else 10)"

definition sharpe_band :: "real \<Rightarrow> int" where
  "sharpe_band sharpe_ratio =
     (if sharpe_ratio < 0 then 20
      else if sharpe_ratio < 0.5 then 15
      else if sharpe_ratio < 1 then 10
      else 5)"

definition risk_score :: "real \<Rightarrow> real \<Rightarrow> real \<Rightarrow> int" where
  "risk_score volatility max_drawdown sharpe_ratio =
     0 + volatility_band volatility + drawdown_band max_drawdown + sharpe_band sharpe_ratio"

definition assess_risk_level :: "real \<Rightarrow> real \<Rightarrow> real \<Rightarrow> string" where
  "assess_risk_level volatility max_drawdown sharpe_ratio =
     (let score = risk_score volatility max_drawdown sharpe_ratio
      in if score \<ge> 70 then ''Very High''
         else if score \<ge> 55 then ''High''
         else if score \<ge> 40 then ''Moderate''
         else if score \<ge> 25 then ''Low''
         else ''Very Low'')"

section \<open>DecisionEngine\<close>



definition risk_mapping :: "(string \<times> int) list" where
  "risk_mapping =
     [(''Very Low'', 100),
      (''Low'', 80),
      (''Moderate'', 60),
      (''High'', 40),
      (''Very High'', 20),
      (''Unknown'', 50)]"

definition normalize_risk_score :: "string \<Rightarrow> int" where
  "normalize_risk_score risk_level = dict_get (map_of risk_mapping risk_level) 50"


text \<open>\<open>sum(1 for b in biases if word in b)\<close>\<close>

definition count_in :: "string \<Rightarrow> string list \<Rightarrow> int" where
  "count_in word biases = sum_list (map (\<lambda>b. 1) (filter (str_in word) biases))"

text \<open>
  The labels the three directional agents can hand to the engine: the results of their
  \<open>determine_bias\<close> and the "Unknown" of their default results.
\<close>

definition agent_labels :: "string list" where
  "agent_labels =
     [''Bullish'', ''Slightly Bullish'', ''Bullish but cautious'', ''Neutral'',
      ''Slightly Bearish'', ''Bearish'', ''Unknown'']"

text \<open>The \<open>1\<close> a label adds to a count when the test holds.\<close>

definition one_if :: "bool \<Rightarrow> int" where
  "one_if c = (if c then 1 else 0)"

definition resolve_conflicts :: "string list \<Rightarrow> string \<Rightarrow> string \<times> string" where
  "resolve_conflicts biases risk_level =
     (let bullish_count = count_in ''Bullish'' biases;
          bearish_count = count_in ''Bearish'' biases;
          neutral_count = count_in ''Neutral'' biases
      in if risk_level \<in> set [''High'', ''Very High''] then
           (if bullish_count \<ge> 2 then
              (''Hold'', ''Strong fundamentals and sentiment, but elevated risk suggests caution'')
            else if bearish_count \<ge> 2 then
              (''Avoid'', ''Negative signals combined with high risk'')
            else
              (''Hold'', ''Mixed signals with high risk - wait for better entry''))
         else if bullish_count \<ge> 3 then
           (''Buy'', ''Strong bullish consensus across multiple indicators'')
         else if bullish_count = 2 \<and> neutral_count \<ge> 1 then
           (''Buy'', ''Mostly positive signals with some neutral indicators'')
         else if bearish_count \<ge> 3 then
           (''Sell'', ''Strong bearish consensus'')
         else if bearish_count = 2 \<and> neutral_count \<ge> 1 then
           (''Sell'', ''Mostly negative signals'')
         else if bullish_count = 2 \<and> bearish_count = 1 then
           (''Hold'', ''Mixed signals - bullish technical/fundamental but bearish sentiment'')
         else if bearish_count = 2 \<and> bullish_count = 1 then
           (''Hold'', ''Mixed signals - caution advised'')
         else
           (''Hold'', ''Neutral or mixed signals - wait for clearer direction''))"

definition determine_recommendation :: "real \<Rightarrow> string list \<Rightarrow> string \<Rightarrow> string \<times> string" where
  "determine_recommendation combined_score biases risk_level =
     (let (conflict_recommendation, conflict_reason) = resolve_conflicts biases risk_level
      in if combined_score \<ge> 70 then
           (if conflict_recommendation = ''Sell'' then (''Hold'', conflict_reason)
            else (''Buy'', ''Strong overall score supports bullish position''))
         else if combined_score \<ge> 55 then
           (if conflict_recommendation = ''Sell'' then (''Hold'', conflict_reason)
            else (conflict_recommendation, conflict_reason))
         else if combined_score \<ge> 45 then
           (''Hold'', ''Moderate score suggests waiting for better entry/exit'')
         else if combined_score \<ge> 30 then
           (if conflict_recommendation = ''Buy'' then
              (''Hold'', ''Low score but some positive signals - caution advised'')
            else (''Sell'', ''Weak overall score with negative signals''))
         else (''Sell'', ''Very weak overall score''))"

text \<open>
  \<open>calculate_confidence\<close>: \<open>confidence\<close> is a Python int throughout, so the final
  \<open>round(confidence, 2)\<close> returns it unchanged. \<open>max(scores)\<close> raises on an empty list.
\<close>

definition calculate_confidence :: "real list \<Rightarrow> string list \<Rightarrow> py_error + int" where
  "calculate_confidence scores biases =
     (let unique_biases = set biases;
          confidence = (if card unique_biases = 1 then 85
                        else if card unique_biases = 2 then 65
                        else (45 :: int))
      in case py_max scores of
           Inl e \<Rightarrow> Inl e
         | Inr hi \<Rightarrow>
             (case py_min scores of
                Inl e \<Rightarrow> Inl e
              | Inr lo \<Rightarrow>
                  (let score_range = hi - lo;
                       confidence = (if score_range < 20 then confidence + 10
                                     else if score_range > 40 then confidence - 10
                                     else confidence);
                       confidence = max 30 (min 95 confidence)
                   in Inr confidence)))"

section \<open>The web application's serializer\<close>

definition isnan :: "pyfloat \<Rightarrow> bool" where
  "isnan x = (x = NaN)"

definition isinf :: "pyfloat \<Rightarrow> bool" where
  "isinf x = (x = PosInf \<or> x = NegInf)"

text \<open>
  The branches in the order of the source. On a float column
  \<open>obj.where(pd.notna(obj), None)\<close> leaves the column of dtype float64, where the \<open>None\<close>
  it puts in for a missing entry is NaN again: \<open>tolist()\<close> and \<open>to_dict('records')\<close> hand
  every entry back unchanged as a built-in float, NaN and infinities included. The last
  two equations model the trailing \<open>pd.isna(obj)\<close> test, which holds of a built-in
  float only when it is NaN.
\<close>

fun make_json_serializable :: "pyobj \<Rightarrow> pyobj" where
  "make_json_serializable PyNone = PyNone"
| "make_json_serializable (PdSeries xs) = PyList (map PyFloat xs)"
| "make_json_serializable (PdDataFrame rows) =
     PyList (map (\<lambda>row. PyDict (map (\<lambda>(col, x). (col, PyFloat x)) row)) rows)"
| "make_json_serializable (NpInteger i) = PyInt i"
| "make_json_serializable (NpFloating x) = (if isnan x \<or> isinf x then PyNone else PyFloat x)"
| "make_json_serializable (NpArray xs) = PyList (map PyFloat xs)"
| "make_json_serializable (NpBool b) = PyBool b"
| "make_json_serializable (PyDict items) =
     PyDict (map (\<lambda>(key, v). (key, make_json_serializable v)) items)"
| "make_json_serializable (PyList items) = PyList (map make_json_serializable items)"
| "make_json_serializable (PyTuple items) = PyList (map make_json_serializable items)"
| "make_json_serializable (PyFloat x) = (if isnan x then PyNone else PyFloat x)"
| "make_json_serializable obj = obj"

text \<open>Whether a NaN or an infinity occurs anywhere in a serialized value.\<close>

fun has_non_finite :: "pyobj \<Rightarrow> bool" where
  "has_non_finite (PyFloat x) = (isnan x \<or> isinf x)"
| "has_non_finite (PyList items) = list_ex has_non_finite items"
| "has_non_finite (PyTuple items) = list_ex has_non_finite items"
| "has_non_finite (PyDict items) = list_ex (\<lambda>(key, v). has_non_finite v) items"
| "has_non_finite obj = False"

section \<open>Rounding lemmas\<close>

lemma round_half_even_of_int: "round_half_even (of_int n) = n"
  by (simp add: round_half_even_def)

lemma round_half_even_le: "x \<le> of_int n \<Longrightarrow> round_half_even x \<le> n"
  unfolding round_half_even_def Let_def
  by (auto simp: not_less; linarith)

lemma round_half_even_ge: "of_int n \<le> x \<Longrightarrow> n \<le> round_half_even x"
  unfolding round_half_even_def Let_def
  by (auto simp: not_less; linarith)

lemma py_round2_range:
  assumes "of_int a \<le> x" "x \<le> of_int b"
  shows "of_int a \<le> py_round2 x \<and> py_round2 x \<le> of_int b"
proof -
  have "of_int (a * 100) \<le> x * 100" "x * 100 \<le> of_int (b * 100)"
    using assms by simp_all
  then have "a * 100 \<le> round_half_even (x * 100)" "round_half_even (x * 100) \<le> b * 100"
    using round_half_even_ge round_half_even_le by blast+
  then have "of_int (a * 100) \<le> (of_int (round_half_even (x * 100)) :: real)"
     "(of_int (round_half_even (x * 100)) :: real) \<le> of_int (b * 100)"
    using of_int_le_iff by blast+
  then show ?thesis by (simp add: py_round2_def)
qed

lemma py_round2_0_100: "0 \<le> x \<Longrightarrow> x \<le> 100 \<Longrightarrow> 0 \<le> py_round2 x \<and> py_round2 x \<le> 100"
  using py_round2_range [of 0 x 100] by simp

section \<open>Double-precision arithmetic: lemmas\<close>

text \<open>The exponent brackets its argument between two powers of 2 and is monotone.\<close>

lemma binade_bounds:
  assumes "0 < x"
  shows "2 powi binade x \<le> x \<and> x < 2 powi (binade x + 1)"
proof (cases "1 \<le> x")
  case True
  define n where "n = nat \<lfloor>x\<rfloor>"
  define L where "L = floorlog 2 n"
  have n: "0 < n" "real n \<le> x" "x < real n + 1"
    using True unfolding n_def by (auto simp: le_nat_floor)
  from floorlog_bounds [OF n(1), of 2] have b: "2 ^ (L - 1) \<le> n" "n < 2 ^ L"
    unfolding L_def by auto
  have L: "0 < L" using b(2) n(1) by (cases L) auto
  have e: "binade x = int (L - 1)"
    using True L by (simp add: binade_def n_def L_def)
  have "real (2 ^ (L - 1)) \<le> real n"
    using b(1) by (rule of_nat_mono)
  then have "(2::real) ^ (L - 1) \<le> real n"
    by simp
  moreover have "(2::real) powi binade x = 2 ^ (L - 1)"
    by (simp only: e power_int_of_nat)
  ultimately have lo: "2 powi binade x \<le> x"
    using n(2) by linarith
  have "n + 1 \<le> 2 ^ L" using b(2) by simp
  then have "real (n + 1) \<le> real (2 ^ L)"
    by (rule of_nat_mono)
  then have "real n + 1 \<le> 2 ^ L"
    by simp
  moreover have "binade x + 1 = int L" using e L by simp
  then have "(2::real) powi (binade x + 1) = 2 ^ L"
    by (simp only: power_int_of_nat)
  ultimately have hi: "x < 2 powi (binade x + 1)"
    using n(3) by linarith
  from lo hi show ?thesis ..
next
  case False
  define y where "y = 1 / x"
  define m where "m = nat (\<lceil>y\<rceil> - 1)"
  define L where "L = floorlog 2 m"
  have y: "1 < y" using False assms by (simp add: y_def)
  then have c: "2 \<le> \<lceil>y\<rceil>" by linarith
  have m: "0 < m" "real m < y" "y \<le> real m + 1"
    using c unfolding m_def by (auto; linarith)+
  from floorlog_bounds [OF m(1), of 2] have b: "2 ^ (L - 1) \<le> m" "m < 2 ^ L"
    unfolding L_def by auto
  have L: "0 < L" using b(2) m(1) by (cases L) auto
  have e: "binade x = - int L"
    using False by (simp add: binade_def m_def L_def y_def)
  have "m + 1 \<le> 2 ^ L" using b(2) by simp
  then have "real (m + 1) \<le> real (2 ^ L)"
    by (rule of_nat_mono)
  then have "real m + 1 \<le> 2 ^ L"
    by simp
  then have "y \<le> 2 ^ L" using m(3) by linarith
  then have "1 / 2 ^ L \<le> x"
    using assms unfolding y_def by (simp add: field_simps)
  moreover have "(2::real) powi binade x = 1 / 2 ^ L"
    by (simp only: e power_int_minus_divide power_int_of_nat)
  ultimately have lo: "2 powi binade x \<le> x"
    by linarith
  have "real (2 ^ (L - 1)) \<le> real m"
    using b(1) by (rule of_nat_mono)
  then have "(2::real) ^ (L - 1) \<le> real m"
    by simp
  then have "2 ^ (L - 1) < y" using m(2) by linarith
  then have "x < 1 / 2 ^ (L - 1)"
    using assms unfolding y_def by (simp add: field_simps)
  moreover have "binade x + 1 = - int (L - 1)" using e L by simp
  then have "(2::real) powi (binade x + 1) = 1 / 2 ^ (L - 1)"
    by (simp only: power_int_minus_divide power_int_of_nat)
  ultimately have hi: "x < 2 powi (binade x + 1)"
    by linarith
  from lo hi show ?thesis ..
qed

lemma binade_unique:
  assumes "2 powi k \<le> x" "x < 2 powi (k + 1)"
  shows "binade x = k"
proof -
  have pos: "0 < x"
    using assms(1) zero_less_power_int [of "2::real" k] by linarith
  from binade_bounds [OF pos] have b: "2 powi binade x \<le> x" "x < 2 powi (binade x + 1)"
    by auto
  have "(2::real) powi k < 2 powi (binade x + 1)" using assms(1) b(2) by linarith
  then have 1: "k < binade x + 1"
    by (metis power_int_increasing not_less one_le_numeral)
  have "(2::real) powi binade x < 2 powi (k + 1)" using assms(2) b(1) by linarith
  then have 2: "binade x < k + 1"
    by (metis power_int_increasing not_less one_le_numeral)
  from 1 2 show ?thesis by simp
qed


text \<open>
  Rounding to the nearest integer and to the nearest double: the error, monotonicity,
  and a rule that evaluates \<open>to_double\<close> at a concrete number from its scaled mantissa.
\<close>

lemma round_half_even_error: "\<bar>of_int (round_half_even z) - z\<bar> \<le> 1 / 2"
  unfolding round_half_even_def Let_def
  by (auto simp: not_less; linarith)


lemma round_half_even_eqI: "\<bar>x - of_int m\<bar> < 1 / 2 \<Longrightarrow> round_half_even x = m"
proof -
  assume a: "\<bar>x - of_int m\<bar> < 1 / 2"
  have "\<bar>of_int (round_half_even x) - x\<bar> \<le> 1 / 2" by (rule round_half_even_error)
  with a have "\<bar>(of_int (round_half_even x) :: real) - of_int m\<bar> < 1" by linarith
  then have "\<bar>round_half_even x - m\<bar> < 1"
    by (metis of_int_diff of_int_abs of_int_less_1_iff)
  then show ?thesis by linarith
qed




lemma to_double_evalI:
  assumes "2 ^ 52 \<le> \<bar>x\<bar> * 2 ^ n" "\<bar>x\<bar> * 2 ^ n < 2 ^ 53" "n \<le> 1074"
    and "round_half_even (x * 2 ^ n) = m" and "y = of_int m / 2 ^ n"
  shows "to_double x = y"
proof -
  have nz: "x \<noteq> 0" using assms(1) by auto
  have "2 powi (52 - int n) \<le> \<bar>x\<bar>" "\<bar>x\<bar> < 2 powi (52 - int n + 1)"
    using assms(1,2) by (simp_all add: power_int_diff power_int_add field_simps)
  then have b: "binade \<bar>x\<bar> = 52 - int n" by (rule binade_unique)
  have e: "max (binade \<bar>x\<bar> - 52) (- 1074) = - int n"
    using assms(3) by (simp add: b)
  have "x / 2 powi (- int n) = x * 2 ^ n"
    by (simp add: power_int_minus field_simps)
  then show ?thesis
    using nz assms(4,5) by (simp add: to_double_def e power_int_minus field_simps)
qed

























lemma to_double_20: "to_double 20 = 20"
  by (rule to_double_evalI [where n = 48 and m = 5629499534213120])
    (simp_all add: round_half_even_def)

lemma to_double_30: "to_double 30 = 30"
  by (rule to_double_evalI [where n = 48 and m = 8444249301319680])
    (simp_all add: round_half_even_def)








section \<open>DecisionEngine: the combined score\<close>














section \<open>FundamentalAnalyst: the revenue-growth curve\<close>

text \<open>
  Claim C10. \<open>normalize_score(v, 'revenue_growth')\<close> is 100 for \<open>v \<ge> 20\<close>,
  \<open>70 + 3*(v - 10)\<close> for \<open>10 \<le> v < 20\<close>, \<open>50 + 2*v\<close> for \<open>0 \<le> v < 10\<close> and
  \<open>max(0, 50 + 2*v)\<close> for \<open>v < 0\<close>; so 25 gives 100, 15 gives 85, 5 gives 60 and -10
  gives 30. The source tests \<open>v > 20\<close>, \<open>v > 10\<close> and \<open>v > 0\<close>; the pieces agree at the
  three breakpoints.
\<close>

theorem normalize_revenue_growth:
  "(20 \<le> v \<longrightarrow> normalize_score v ''revenue_growth'' = 100)
   \<and> (10 \<le> v \<and> v < 20 \<longrightarrow> normalize_score v ''revenue_growth'' = 70 + 3 * (v - 10))
   \<and> (0 \<le> v \<and> v < 10 \<longrightarrow> normalize_score v ''revenue_growth'' = 50 + 2 * v)
   \<and> (v < 0 \<longrightarrow> normalize_score v ''revenue_growth'' = max 0 (50 + 2 * v))
   \<and> normalize_score 25 ''revenue_growth'' = 100
   \<and> normalize_score 15 ''revenue_growth'' = 85
   \<and> normalize_score 5 ''revenue_growth'' = 60
   \<and> normalize_score (- 10) ''revenue_growth'' = 30"
  by (simp add: normalize_score_def mult.commute)

theorem normalize_revenue_growth_witness:
  "normalize_score 20 ''revenue_growth'' = 100
   \<and> normalize_score 12 ''revenue_growth'' = 76
   \<and> normalize_score 0 ''revenue_growth'' = 50
   \<and> normalize_score (- 30) ''revenue_growth'' = 0"
  using normalize_revenue_growth [of 20] normalize_revenue_growth [of 12]
    normalize_revenue_growth [of 0] normalize_revenue_growth [of "- 30"]
  by simp

section \<open>RiskManager: the risk level\<close>

text \<open>
  Claim C8. \<open>assess_risk_level\<close> never returns "Very Low": the volatility band adds at
  least 10, the drawdown band at least 10 and the Sharpe band at least 5, so the risk
  score is at least 25 and the level is one of Low, Moderate, High, Very High. Hence
  \<open>normalize_risk_score\<close> of an assessed level is 80, 60, 40 or 20, never the 100 that
  the mapping holds for "Very Low". The only other level the risk agent reports is the
  "Unknown" of its default result, which maps to 50.
\<close>

theorem risk_level_never_very_low:
  "10 \<le> volatility_band v \<and> 10 \<le> drawdown_band d \<and> 5 \<le> sharpe_band s
   \<and> 25 \<le> risk_score v d s
   \<and> assess_risk_level v d s \<noteq> ''Very Low''
   \<and> assess_risk_level v d s \<in> {''Low'', ''Moderate'', ''High'', ''Very High''}
   \<and> normalize_risk_score (assess_risk_level v d s) \<in> {80, 60, 40, 20}
   \<and> normalize_risk_score ''Very Low'' = 100
   \<and> normalize_risk_score (assess_risk_level v d s) \<noteq> 100
   \<and> py_get rm_default_result ''risk_level'' = Some (PyStr ''Unknown'')
   \<and> normalize_risk_score ''Unknown'' = 50"
proof -
  have b: "10 \<le> volatility_band v" "10 \<le> drawdown_band d" "5 \<le> sharpe_band s"
    by (simp_all add: volatility_band_def drawdown_band_def sharpe_band_def)
  then have s: "25 \<le> risk_score v d s"
    by (simp add: risk_score_def)
  then have l: "assess_risk_level v d s \<in> {''Low'', ''Moderate'', ''High'', ''Very High''}"
    by (simp add: assess_risk_level_def Let_def)
  then have n: "normalize_risk_score (assess_risk_level v d s) \<in> {80, 60, 40, 20}"
    by (auto simp: normalize_risk_score_def risk_mapping_def dict_get_def)
  have vl: "normalize_risk_score ''Very Low'' = 100"
    by (simp add: normalize_risk_score_def risk_mapping_def dict_get_def)
  have u: "py_get rm_default_result ''risk_level'' = Some (PyStr ''Unknown'')"
    "normalize_risk_score ''Unknown'' = 50"
    by (simp_all add: rm_default_result_def normalize_risk_score_def risk_mapping_def dict_get_def)
  from l have "assess_risk_level v d s \<noteq> ''Very Low''" by auto
  with b s l n vl u show ?thesis by auto
qed

section \<open>DecisionEngine: conflict resolution and the recommendation\<close>

text \<open>The executable substring test agrees with the spec's wording.\<close>

lemma take_eq_iff_prefix: "take (length sub) s = sub \<longleftrightarrow> (\<exists>after. s = sub @ after)"
  by (metis append_eq_conv_conj append_take_drop_id)

lemma str_in_iff: "str_in sub s \<longleftrightarrow> contains_substring s sub"
proof (induction s)
  case Nil
  show ?case by (simp add: contains_substring_def)
next
  case (Cons c cs)
  have "contains_substring (c # cs) sub
          \<longleftrightarrow> (\<exists>after. c # cs = sub @ after) \<or> contains_substring cs sub"
  proof
    assume "contains_substring (c # cs) sub"
    then obtain b a where eq: "c # cs = b @ sub @ a"
      unfolding contains_substring_def by blast
    show "(\<exists>after. c # cs = sub @ after) \<or> contains_substring cs sub"
    proof (cases b)
      case Nil
      with eq show ?thesis by auto
    next
      case (Cons b0 b')
      with eq have "cs = b' @ sub @ a" by simp
      then show ?thesis unfolding contains_substring_def by blast
    qed
  next
    assume "(\<exists>after. c # cs = sub @ after) \<or> contains_substring cs sub"
    then show "contains_substring (c # cs) sub"
    proof
      assume "\<exists>after. c # cs = sub @ after"
      then obtain a where "c # cs = [] @ sub @ a" by auto
      then show ?thesis unfolding contains_substring_def by blast
    next
      assume "contains_substring cs sub"
      then obtain b a where "cs = b @ sub @ a"
        unfolding contains_substring_def by blast
      then have "c # cs = (c # b) @ sub @ a" by simp
      then show ?thesis unfolding contains_substring_def by blast
    qed
  qed
  with Cons.IH show ?case
    by (simp only: str_in.simps take_eq_iff_prefix)
qed

lemma count_in_eq: "count_in word biases = labels_containing word biases"
proof -
  have "sum_list (map (\<lambda>b. 1 :: int) xs) = int (length xs)" for xs :: "string list"
    by (induction xs) simp_all
  then show ?thesis
    by (simp add: count_in_def labels_containing_def str_in_iff [abs_def])
qed

text \<open>
  Claim C2. \<open>resolve_conflicts(biases, risk_level)\<close> counts the labels that contain
  "Bullish", "Bearish" and "Neutral" as a case-sensitive substring. Under risk level
  "High" or "Very High" it returns Hold when at least 2 are bullish, else Avoid when at
  least 2 are bearish, else Hold. Under any other risk level it returns Buy when at
  least 3 are bullish or exactly 2 are bullish with at least 1 neutral, else Sell when
  at least 3 are bearish or exactly 2 are bearish with at least 1 neutral, else Hold.
  The rules are read in this order, as the source's chain of tests is. The three
  examples of the claim follow, and one with labels that differ from "Bullish" only in
  case.
\<close>

theorem resolve_conflicts_rules:
  "fst (resolve_conflicts biases risk_level) =
     (let bullish = labels_containing ''Bullish'' biases;
          bearish = labels_containing ''Bearish'' biases;
          neutral = labels_containing ''Neutral'' biases
      in if risk_level = ''High'' \<or> risk_level = ''Very High'' then
           (if 2 \<le> bullish then ''Hold'' else if 2 \<le> bearish then ''Avoid'' else ''Hold'')
         else if 3 \<le> bullish \<or> (bullish = 2 \<and> 1 \<le> neutral) then ''Buy''
         else if 3 \<le> bearish \<or> (bearish = 2 \<and> 1 \<le> neutral) then ''Sell''
         else ''Hold'')
   \<and> fst (resolve_conflicts [''Bullish'', ''Bullish'', ''Bullish''] ''Low'') = ''Buy''
   \<and> fst (resolve_conflicts [''Bearish'', ''Bearish'', ''Neutral''] ''Moderate'') = ''Sell''
   \<and> fst (resolve_conflicts [''Bullish'', ''Bullish'', ''Bearish''] ''High'') = ''Hold''
   \<and> fst (resolve_conflicts [''bullish'', ''BULLISH'', ''Bullish but cautious''] ''Low'') = ''Hold''"
proof -
  have general: "fst (resolve_conflicts biases risk_level) =
     (let bullish = labels_containing ''Bullish'' biases;
          bearish = labels_containing ''Bearish'' biases;
          neutral = labels_containing ''Neutral'' biases
      in if risk_level = ''High'' \<or> risk_level = ''Very High'' then
           (if 2 \<le> bullish then ''Hold'' else if 2 \<le> bearish then ''Avoid'' else ''Hold'')
         else if 3 \<le> bullish \<or> (bullish = 2 \<and> 1 \<le> neutral) then ''Buy''
         else if 3 \<le> bearish \<or> (bearish = 2 \<and> 1 \<le> neutral) then ''Sell''
         else ''Hold'')"
    unfolding resolve_conflicts_def count_in_eq Let_def
    by simp
  have e1: "fst (resolve_conflicts [''Bullish'', ''Bullish'', ''Bullish''] ''Low'') = ''Buy''"
    by (simp add: resolve_conflicts_def count_in_def)
  have e2: "fst (resolve_conflicts [''Bearish'', ''Bearish'', ''Neutral''] ''Moderate'') = ''Sell''"
    by (simp add: resolve_conflicts_def count_in_def)
  have e3: "fst (resolve_conflicts [''Bullish'', ''Bullish'', ''Bearish''] ''High'') = ''Hold''"
    by (simp add: resolve_conflicts_def count_in_def)
  have e4: "fst (resolve_conflicts [''bullish'', ''BULLISH'', ''Bullish but cautious''] ''Low'') = ''Hold''"
    by (simp add: resolve_conflicts_def count_in_def)
  from general e1 e2 e3 e4 show ?thesis by blast
qed

text \<open>
  On three labels of the agents the rules of C2 do not compete: a label holds at most
  one of the three words, so at most one of the Buy and Sell conditions (and of the
  two high-risk conditions) is met, and each rule holds on its own.
\<close>

lemma determine_bias_labels:
  "fundamental_determine_bias x \<in> set agent_labels"
  "sentiment_determine_bias y \<in> set agent_labels"
  "technical_determine_bias z t r \<in> set agent_labels"
  by (simp_all add: fundamental_determine_bias_def sentiment_determine_bias_def
      technical_determine_bias_def agent_labels_def)

lemma agent_label_one_word:
  assumes "b \<in> set agent_labels"
  shows "one_if (str_in ''Bullish'' b) + one_if (str_in ''Bearish'' b)
           + one_if (str_in ''Neutral'' b) \<le> 1"
  using assms unfolding agent_labels_def
  by (auto simp: one_if_def)

lemma count_in_Nil: "count_in w [] = 0"
  by (simp add: count_in_def)

lemma count_in_Cons: "count_in w (b # bs) = one_if (str_in w b) + count_in w bs"
  by (simp add: count_in_def one_if_def)

lemma agent_labels_counts:
  assumes "set biases \<subseteq> set agent_labels"
  shows "count_in ''Bullish'' biases + count_in ''Bearish'' biases
           + count_in ''Neutral'' biases \<le> int (length biases)"
  using assms
proof (induction biases)
  case Nil
  show ?case by (simp add: count_in_Nil)
next
  case (Cons b bs)
  then have "b \<in> set agent_labels" and "set bs \<subseteq> set agent_labels" by auto
  from agent_label_one_word [OF this(1)] Cons.IH [OF this(2)]
  show ?case by (simp add: count_in_Cons)
qed

lemma count_in_nonneg: "0 \<le> count_in w biases"
  by (simp add: count_in_eq labels_containing_def)

lemma resolve_conflicts_clauses:
  assumes "set biases \<subseteq> set agent_labels" and "length biases = 3"
  shows "(risk_level = ''High'' \<or> risk_level = ''Very High'' \<longrightarrow>
           (2 \<le> labels_containing ''Bullish'' biases \<longrightarrow>
              fst (resolve_conflicts biases risk_level) = ''Hold'')
         \<and> (2 \<le> labels_containing ''Bearish'' biases \<longrightarrow>
              fst (resolve_conflicts biases risk_level) = ''Avoid'')
         \<and> (labels_containing ''Bullish'' biases < 2 \<and> labels_containing ''Bearish'' biases < 2 \<longrightarrow>
              fst (resolve_conflicts biases risk_level) = ''Hold''))
       \<and> (risk_level \<noteq> ''High'' \<and> risk_level \<noteq> ''Very High'' \<longrightarrow>
           (3 \<le> labels_containing ''Bullish'' biases
              \<or> (labels_containing ''Bullish'' biases = 2 \<and> 1 \<le> labels_containing ''Neutral'' biases) \<longrightarrow>
              fst (resolve_conflicts biases risk_level) = ''Buy'')
         \<and> (3 \<le> labels_containing ''Bearish'' biases
              \<or> (labels_containing ''Bearish'' biases = 2 \<and> 1 \<le> labels_containing ''Neutral'' biases) \<longrightarrow>
              fst (resolve_conflicts biases risk_level) = ''Sell'')
         \<and> (\<not> (3 \<le> labels_containing ''Bullish'' biases
                \<or> (labels_containing ''Bullish'' biases = 2 \<and> 1 \<le> labels_containing ''Neutral'' biases))
            \<and> \<not> (3 \<le> labels_containing ''Bearish'' biases
                \<or> (labels_containing ''Bearish'' biases = 2 \<and> 1 \<le> labels_containing ''Neutral'' biases)) \<longrightarrow>
              fst (resolve_conflicts biases risk_level) = ''Hold''))"
proof -
  have total: "labels_containing ''Bullish'' biases + labels_containing ''Bearish'' biases
           + labels_containing ''Neutral'' biases \<le> 3"
    using agent_labels_counts [OF assms(1)] assms(2) by (simp add: count_in_eq)
  have nonneg: "0 \<le> labels_containing ''Bullish'' biases" "0 \<le> labels_containing ''Bearish'' biases"
    "0 \<le> labels_containing ''Neutral'' biases"
    by (simp_all add: labels_containing_def)
  show ?thesis
    using total nonneg unfolding resolve_conflicts_def count_in_eq Let_def
    by auto
qed

text \<open>
  Claim C1. \<open>determine_recommendation(combined_score, biases, risk_level)\<close> takes the
  recommendation of \<open>resolve_conflicts\<close> and filters it by the score: from 70 up, Buy
  unless the conflict recommendation is Sell (then Hold); from 55 to below 70, the
  conflict recommendation unless it is Sell (then Hold); from 45 to below 55, Hold; from
  30 to below 45, Sell unless the conflict recommendation is Buy (then Hold); below 30,
  Sell. A score of 72 with three "Bullish" labels at risk "Low" gives Buy, and with
  three "Bearish" labels gives Hold.
\<close>

theorem determine_recommendation_rules:
  "(70 \<le> combined_score \<longrightarrow>
      fst (determine_recommendation combined_score biases risk_level) =
        (if fst (resolve_conflicts biases risk_level) = ''Sell'' then ''Hold'' else ''Buy''))
   \<and> (55 \<le> combined_score \<and> combined_score < 70 \<longrightarrow>
      fst (determine_recommendation combined_score biases risk_level) =
        (if fst (resolve_conflicts biases risk_level) = ''Sell'' then ''Hold''
         else fst (resolve_conflicts biases risk_level)))
   \<and> (45 \<le> combined_score \<and> combined_score < 55 \<longrightarrow>
      fst (determine_recommendation combined_score biases risk_level) = ''Hold'')
   \<and> (30 \<le> combined_score \<and> combined_score < 45 \<longrightarrow>
      fst (determine_recommendation combined_score biases risk_level) =
        (if fst (resolve_conflicts biases risk_level) = ''Buy'' then ''Hold'' else ''Sell''))
   \<and> (combined_score < 30 \<longrightarrow>
      fst (determine_recommendation combined_score biases risk_level) = ''Sell'')
   \<and> fst (determine_recommendation 72 [''Bullish'', ''Bullish'', ''Bullish''] ''Low'') = ''Buy''
   \<and> fst (determine_recommendation 72 [''Bearish'', ''Bearish'', ''Bearish''] ''Low'') = ''Hold''"
proof -
  obtain c r where cr: "resolve_conflicts biases risk_level = (c, r)"
    by (cases "resolve_conflicts biases risk_level")
  have general: "fst (determine_recommendation combined_score biases risk_level) =
      (if 70 \<le> combined_score then (if c = ''Sell'' then ''Hold'' else ''Buy'')
       else if 55 \<le> combined_score then (if c = ''Sell'' then ''Hold'' else c)
       else if 45 \<le> combined_score then ''Hold''
       else if 30 \<le> combined_score then (if c = ''Buy'' then ''Hold'' else ''Sell'')
       else ''Sell'')"
    by (simp add: determine_recommendation_def cr)
  have e1: "fst (determine_recommendation 72 [''Bullish'', ''Bullish'', ''Bullish''] ''Low'') = ''Buy''"
    by (simp add: determine_recommendation_def resolve_conflicts_def count_in_def)
  have e2: "fst (determine_recommendation 72 [''Bearish'', ''Bearish'', ''Bearish''] ''Low'') = ''Hold''"
    by (simp add: determine_recommendation_def resolve_conflicts_def count_in_def)
  from general e1 e2 show ?thesis
    by (simp add: cr)
qed

theorem determine_recommendation_rules_witness:
  "fst (determine_recommendation 75 [''Bullish'', ''Neutral'', ''Slightly Bullish''] ''Moderate'') = ''Buy''
   \<and> fst (determine_recommendation 60 [''Bearish'', ''Bearish'', ''Neutral''] ''Low'') = ''Hold''
   \<and> fst (determine_recommendation 60 [''Bearish'', ''Bearish'', ''Neutral''] ''High'') = ''Avoid''
   \<and> fst (determine_recommendation 50 [''Bullish'', ''Bullish'', ''Bullish''] ''Low'') = ''Hold''
   \<and> fst (determine_recommendation 40 [''Bullish'', ''Bullish'', ''Bullish''] ''Low'') = ''Hold''
   \<and> fst (determine_recommendation 40 [''Bullish'', ''Bullish'', ''Bullish''] ''High'') = ''Sell''
   \<and> fst (determine_recommendation 12 [''Bullish'', ''Bullish'', ''Bullish''] ''Low'') = ''Sell''"
proof -
  have c1: "fst (resolve_conflicts [''Bullish'', ''Neutral'', ''Slightly Bullish''] ''Moderate'') = ''Buy''"
    and c2: "fst (resolve_conflicts [''Bearish'', ''Bearish'', ''Neutral''] ''Low'') = ''Sell''"
    and c3: "fst (resolve_conflicts [''Bearish'', ''Bearish'', ''Neutral''] ''High'') = ''Avoid''"
    and c4: "fst (resolve_conflicts [''Bullish'', ''Bullish'', ''Bullish''] ''Low'') = ''Buy''"
    and c5: "fst (resolve_conflicts [''Bullish'', ''Bullish'', ''Bullish''] ''High'') = ''Hold''"
    by (simp_all add: resolve_conflicts_def count_in_def)
  show ?thesis
    using determine_recommendation_rules [of 75 "[''Bullish'', ''Neutral'', ''Slightly Bullish'']" "''Moderate''"]
      determine_recommendation_rules [of 60 "[''Bearish'', ''Bearish'', ''Neutral'']" "''Low''"]
      determine_recommendation_rules [of 60 "[''Bearish'', ''Bearish'', ''Neutral'']" "''High''"]
      determine_recommendation_rules [of 50 "[''Bullish'', ''Bullish'', ''Bullish'']" "''Low''"]
      determine_recommendation_rules [of 40 "[''Bullish'', ''Bullish'', ''Bullish'']" "''Low''"]
      determine_recommendation_rules [of 40 "[''Bullish'', ''Bullish'', ''Bullish'']" "''High''"]
      determine_recommendation_rules [of 12 "[''Bullish'', ''Bullish'', ''Bullish'']" "''Low''"]
    by (simp add: c1 c2 c3 c4 c5)
qed

section \<open>DecisionEngine: confidence\<close>

text \<open>The scans of \<open>max\<close> and \<open>min\<close> return the greatest and the least score.\<close>

lemma py_max_eq: "scores \<noteq> [] \<Longrightarrow> py_max scores = Inr (Max (set scores))"
proof (cases scores)
  case Nil
  then show "scores \<noteq> [] \<Longrightarrow> ?thesis" by simp
next
  case (Cons x xs)
  have "(\<lambda>item max_item :: real. if item > max_item then item else max_item) = max"
    by (auto simp: fun_eq_iff max_def)
  moreover have "fold max xs x = Max (set (x # xs))"
    by (simp only: Max.set_eq_fold)
  ultimately show ?thesis
    by (simp only: Cons py_max.simps)
qed

lemma py_min_eq: "scores \<noteq> [] \<Longrightarrow> py_min scores = Inr (Min (set scores))"
proof (cases scores)
  case Nil
  then show "scores \<noteq> [] \<Longrightarrow> ?thesis" by simp
next
  case (Cons x xs)
  have "(\<lambda>item min_item :: real. if item < min_item then item else min_item) = min"
    by (auto simp: fun_eq_iff min_def)
  moreover have "fold min xs x = Min (set (x # xs))"
    by (simp only: Min.set_eq_fold)
  ultimately show ?thesis
    by (simp only: Cons py_min.simps)
qed

lemma all_identical_iff:
  "card (set biases) = 1 \<longleftrightarrow> biases \<noteq> [] \<and> (\<forall>b\<in>set biases. b = hd biases)"
proof
  assume "card (set biases) = 1"
  then obtain a where a: "set biases = {a}"
    by (auto simp: card_1_singleton_iff)
  then have "biases \<noteq> []" by auto
  moreover from this a have "hd biases = a"
    using hd_in_set by fastforce
  ultimately show "biases \<noteq> [] \<and> (\<forall>b\<in>set biases. b = hd biases)"
    using a by auto
next
  assume h: "biases \<noteq> [] \<and> (\<forall>b\<in>set biases. b = hd biases)"
  then have "set biases = {hd biases}"
    using hd_in_set by fastforce
  then show "card (set biases) = 1" by simp
qed

text \<open>
  Claim C4. \<open>calculate_confidence(scores, biases)\<close> starts from 85 when the labels are
  all the same text, from 65 when they take exactly two distinct values and from 45
  otherwise; it adds 10 when \<open>max(scores) - min(scores) < 20\<close> and subtracts 10 when the
  spread exceeds 40; the result is clamped, so every returned confidence lies in
  [30, 95]. Identical labels with a spread below 20 give 95; three distinct labels with
  a spread above 40 give 35. The call returns for every non-empty score list (the
  engine passes four scores); on an empty one \<open>max\<close> raises ValueError.
\<close>

theorem calculate_confidence_rules:
  "calculate_confidence [] biases = Inl ValueError
   \<and> (scores \<noteq> [] \<longrightarrow>
        calculate_confidence scores biases =
          Inr (max 30 (min 95
            ((if card (set biases) = 1 then 85 else if card (set biases) = 2 then 65 else 45)
             + (if Max (set scores) - Min (set scores) < 20 then 10
                else if Max (set scores) - Min (set scores) > 40 then - 10
                else 0)))))
   \<and> (\<forall>c. calculate_confidence scores biases = Inr c \<longrightarrow> 30 \<le> c \<and> c \<le> 95)
   \<and> (scores \<noteq> [] \<and> biases \<noteq> [] \<and> (\<forall>b\<in>set biases. b = hd biases)
        \<and> Max (set scores) - Min (set scores) < 20 \<longrightarrow>
        calculate_confidence scores biases = Inr 95)
   \<and> (scores \<noteq> [] \<and> card (set biases) = 3 \<and> Max (set scores) - Min (set scores) > 40 \<longrightarrow>
        calculate_confidence scores biases = Inr 35)"
proof -
  have empty: "calculate_confidence [] biases = Inl ValueError"
    by (simp add: calculate_confidence_def)
  have general: "calculate_confidence scores biases =
          Inr (max 30 (min 95
            ((if card (set biases) = 1 then 85 else if card (set biases) = 2 then 65 else 45)
             + (if Max (set scores) - Min (set scores) < 20 then 10
                else if Max (set scores) - Min (set scores) > 40 then - 10
                else 0))))" if "scores \<noteq> []"
    using that by (simp add: calculate_confidence_def py_max_eq py_min_eq Let_def)
  have range: "30 \<le> c \<and> c \<le> 95" if "calculate_confidence scores biases = Inr c" for c
  proof (cases "scores = []")
    case True
    with that show ?thesis by (simp add: calculate_confidence_def)
  next
    case False
    from general [OF False] that show ?thesis by auto
  qed
  have same: "calculate_confidence scores biases = Inr 95"
    if "scores \<noteq> [] \<and> biases \<noteq> [] \<and> (\<forall>b\<in>set biases. b = hd biases)
        \<and> Max (set scores) - Min (set scores) < 20"
  proof -
    from that have "card (set biases) = 1" using all_identical_iff by blast
    with that general show ?thesis by simp
  qed
  have apart: "calculate_confidence scores biases = Inr 35"
    if "scores \<noteq> [] \<and> card (set biases) = 3 \<and> Max (set scores) - Min (set scores) > 40"
    using that general by simp
  from empty general range same apart show ?thesis by blast
qed

theorem calculate_confidence_rules_witness:
  "calculate_confidence [80, 75, 70, 80] [''Bullish'', ''Bullish'', ''Bullish''] = Inr 95
   \<and> calculate_confidence [90, 40, 30, 60] [''Bullish'', ''Neutral'', ''Bearish''] = Inr 35
   \<and> calculate_confidence [90, 60, 60, 60] [''Bullish'', ''Neutral'', ''Bullish''] = Inr 65"
proof -
  have s1: "Max (set [80, 75, 70, 80 :: real]) - Min (set [80, 75, 70, 80 :: real]) < 20"
    and s2: "Max (set [90, 40, 30, 60 :: real]) - Min (set [90, 40, 30, 60 :: real]) > 40"
    and s3: "Max (set [90, 60, 60, 60 :: real]) - Min (set [90, 60, 60, 60 :: real]) = 30"
    by simp_all
  have b1: "\<forall>b\<in>set [''Bullish'', ''Bullish'', ''Bullish'']. b = hd [''Bullish'', ''Bullish'', ''Bullish'']"
    and b2: "card (set [''Bullish'', ''Neutral'', ''Bearish'']) = 3"
    and b3: "card (set [''Bullish'', ''Neutral'', ''Bullish'']) = 2"
    by (simp_all add: card_insert_if)
  have n1: "[80, 75, 70, 80 :: real] \<noteq> []" and n2: "[90, 40, 30, 60 :: real] \<noteq> []"
    and n3: "[90, 60, 60, 60 :: real] \<noteq> []" and n4: "[''Bullish'', ''Bullish'', ''Bullish''] \<noteq> []"
    by simp_all
  have r1: "calculate_confidence [80, 75, 70, 80] [''Bullish'', ''Bullish'', ''Bullish''] = Inr 95"
    using calculate_confidence_rules [of "[''Bullish'', ''Bullish'', ''Bullish'']" "[80, 75, 70, 80]"]
      s1 b1 n1 n4 by blast
  have r2: "calculate_confidence [90, 40, 30, 60] [''Bullish'', ''Neutral'', ''Bearish''] = Inr 35"
    using calculate_confidence_rules [of "[''Bullish'', ''Neutral'', ''Bearish'']" "[90, 40, 30, 60]"]
      s2 b2 n2 by blast
  have "calculate_confidence [90, 60, 60, 60] [''Bullish'', ''Neutral'', ''Bullish''] =
          Inr (max 30 (min 95
            ((if card (set [''Bullish'', ''Neutral'', ''Bullish'']) = 1 then 85
              else if card (set [''Bullish'', ''Neutral'', ''Bullish'']) = 2 then 65 else 45)
             + (if Max (set [90, 60, 60, 60 :: real]) - Min (set [90, 60, 60, 60 :: real]) < 20 then 10
                else if Max (set [90, 60, 60, 60 :: real]) - Min (set [90, 60, 60, 60 :: real]) > 40 then - 10
                else 0))))"
    using calculate_confidence_rules [of "[''Bullish'', ''Neutral'', ''Bullish'']" "[90, 60, 60, 60]"]
      n3 by blast
  then have r3: "calculate_confidence [90, 60, 60, 60] [''Bullish'', ''Neutral'', ''Bullish''] = Inr 65"
    by (simp only: s3 b3) simp
  from r1 r2 r3 show ?thesis by blast
qed

section \<open>The agents' scores stay in range\<close>

text \<open>
  The fundamental score is a sum of normalized scores weighted by the table; the keys
  of a dict are distinct, so the weights that take part sum to at most 1.
\<close>

lemma normalize_score_range: "0 \<le> normalize_score v m \<and> normalize_score v m \<le> 100"
  by (simp add: normalize_score_def)

lemma metric_weight_cases:
  "metric_weight m =
     (if m = ''revenue_growth'' then 0.25 else if m = ''profit_margin'' then 0.25
      else if m = ''pe_ratio'' then 0.20 else if m = ''debt_to_equity'' then 0.15
      else if m = ''roe'' then 0.15 else 0)"
  by (simp add: metric_weight_def fundamental_weights_def)

lemma metric_weight_nonneg: "0 \<le> metric_weight m"
  by (simp add: metric_weight_cases)

lemma metric_weight_outside: "m \<notin> set (map fst fundamental_weights) \<Longrightarrow> metric_weight m = 0"
  by (simp add: metric_weight_cases fundamental_weights_def)

lemma fundamental_weights_sum: "sum_list (map snd fundamental_weights) = 1"
  by (simp add: fundamental_weights_def)

lemma metric_weight_keys_sum: "sum metric_weight (set (map fst fundamental_weights)) = 1"
proof -
  have d: "distinct (map fst fundamental_weights)"
    by (simp add: fundamental_weights_def)
  have "sum metric_weight (set (map fst fundamental_weights))
          = sum_list (map metric_weight (map fst fundamental_weights))"
    using d by (simp only: sum_list_distinct_conv_sum_set)
  also have "\<dots> = 1"
    by (simp add: fundamental_weights_def metric_weight_cases)
  finally show ?thesis .
qed

lemma distinct_weights_le_1:
  assumes "distinct ks"
  shows "sum_list (map metric_weight ks) \<le> 1"
proof -
  let ?K = "set (map fst fundamental_weights)"
  have "sum_list (map metric_weight ks) = sum metric_weight (set ks)"
    using assms by (simp only: sum_list_distinct_conv_sum_set)
  also have "\<dots> \<le> sum metric_weight (set ks \<union> ?K)"
    by (rule sum_mono2) (auto simp: metric_weight_nonneg)
  also have "\<dots> = sum metric_weight ?K"
    by (rule sum.mono_neutral_right) (auto simp: metric_weight_outside)
  also have "\<dots> = 1" by (rule metric_weight_keys_sum)
  finally show ?thesis .
qed

lemma score_loop_sum:
  "snd (score_loop items (sc, ws)) =
     ws + sum_list (map (\<lambda>(m, v). normalize_score v m * metric_weight m) items)"
proof (induction items arbitrary: sc ws)
  case Nil
  show ?case by simp
next
  case (Cons item items)
  obtain m v where item: "item = (m, v)" by (cases item)
  show ?case
  proof (cases "map_of fundamental_weights m")
    case None
    then show ?thesis by (simp add: item Cons.IH metric_weight_def)
  next
    case (Some w)
    then show ?thesis by (simp add: item Cons.IH metric_weight_def Let_def)
  qed
qed

lemma weighted_sum_range:
  assumes "distinct (map fst items)"
  shows "0 \<le> sum_list (map (\<lambda>(m, v). normalize_score v m * metric_weight m) items)
         \<and> sum_list (map (\<lambda>(m, v). normalize_score v m * metric_weight m) items) \<le> 100"
proof
  show "0 \<le> sum_list (map (\<lambda>(m, v). normalize_score v m * metric_weight m) items)"
    by (rule sum_list_nonneg) (auto simp: normalize_score_range metric_weight_nonneg)
next
  have "sum_list (map (\<lambda>(m, v). normalize_score v m * metric_weight m) items)
          \<le> sum_list (map (\<lambda>(m, v). 100 * metric_weight m) items)"
    by (rule sum_list_mono)
      (auto simp: normalize_score_range metric_weight_nonneg mult_right_mono)
  also have "\<dots> = 100 * sum_list (map metric_weight (map fst items))"
    by (induction items) (auto simp: algebra_simps)
  also have "\<dots> \<le> 100"
    using distinct_weights_le_1 [OF assms] by simp
  finally show "sum_list (map (\<lambda>(m, v). normalize_score v m * metric_weight m) items) \<le> 100" .
qed

lemma fundamental_score_range:
  assumes "distinct (map fst items)"
  shows "0 \<le> fst (calculate_fundamental_score (Some items))
         \<and> fst (calculate_fundamental_score (Some items)) \<le> 100"
proof (cases "items = []")
  case True
  then show ?thesis by (simp add: calculate_fundamental_score_def)
next
  case False
  obtain sc ws where l: "score_loop items ([], 0) = (sc, ws)"
    by (cases "score_loop items ([], 0)")
  then have "ws = sum_list (map (\<lambda>(m, v). normalize_score v m * metric_weight m) items)"
    using score_loop_sum [of items "[]" 0] by simp
  then have "0 \<le> ws \<and> ws \<le> 100"
    using weighted_sum_range [OF assms] by simp
  then have "0 \<le> py_round2 ws \<and> py_round2 ws \<le> 100"
    using py_round2_0_100 by blast
  then show ?thesis
    using False by (simp add: calculate_fundamental_score_def l)
qed

lemma clamp_range: "0 \<le> max 0 (min 100 x) \<and> max 0 (min 100 x) \<le> (100 :: real)"
  by simp

text \<open>
  Claim C5. Every agent score lies in [0, 100]. For every dict of real metric values
  the score of \<open>calculate_fundamental_score\<close> is in [0, 100]: each normalized score is
  in [0, 100] and the metric weights sum to 1. For every mean polarity the sentiment
  score, \<open>50 + 50 * polarity\<close> rounded and clamped, is in [0, 100]. For every indicator
  values the technical score is clamped to [0, 100]. The risk score of the lookup table
  is in [0, 100] as well.
\<close>

theorem agent_scores_in_range:
  "(distinct (map fst metrics) \<longrightarrow>
      0 \<le> fst (calculate_fundamental_score (Some metrics))
      \<and> fst (calculate_fundamental_score (Some metrics)) \<le> 100)
   \<and> fst (calculate_fundamental_score None) = 0
   \<and> 0 \<le> normalize_score v metric \<and> normalize_score v metric \<le> 100
   \<and> sum_list (map snd fundamental_weights) = 1
   \<and> calculate_sentiment_score polarity = max 0 (min 100 (py_round2 (50 + 50 * polarity)))
   \<and> 0 \<le> calculate_sentiment_score polarity \<and> calculate_sentiment_score polarity \<le> 100
   \<and> 0 \<le> calculate_technical_score ind \<and> calculate_technical_score ind \<le> 100
   \<and> 0 \<le> normalize_risk_score risk_level \<and> normalize_risk_score risk_level \<le> 100"
proof -
  have f: "distinct (map fst metrics) \<longrightarrow>
      0 \<le> fst (calculate_fundamental_score (Some metrics))
      \<and> fst (calculate_fundamental_score (Some metrics)) \<le> 100"
    using fundamental_score_range by blast
  have n: "fst (calculate_fundamental_score None) = 0"
    by (simp add: calculate_fundamental_score_def)
  have s: "calculate_sentiment_score polarity = max 0 (min 100 (py_round2 (50 + 50 * polarity)))"
    by (simp add: calculate_sentiment_score_def mult.commute)
  have sr: "0 \<le> calculate_sentiment_score polarity \<and> calculate_sentiment_score polarity \<le> 100"
    unfolding calculate_sentiment_score_def Let_def by (rule clamp_range)
  have t: "0 \<le> calculate_technical_score ind \<and> calculate_technical_score ind \<le> 100"
    unfolding calculate_technical_score_def Let_def by (rule clamp_range)
  have r: "0 \<le> normalize_risk_score risk_level \<and> normalize_risk_score risk_level \<le> 100"
    by (simp add: normalize_risk_score_def risk_mapping_def dict_get_def)
  from f n s sr t r normalize_score_range [of v metric] fundamental_weights_sum
  show ?thesis by blast
qed

theorem agent_scores_in_range_witness:
  "fst (calculate_fundamental_score (Some [(''revenue_growth'', 25), (''profit_margin'', 12),
        (''pe_ratio'', 18), (''debt_to_equity'', 0.4), (''roe'', 22)])) = 91.75
   \<and> 0 \<le> fst (calculate_fundamental_score (Some [(''revenue_growth'', 25), (''profit_margin'', 12),
        (''pe_ratio'', 18), (''debt_to_equity'', 0.4), (''roe'', 22)]))
   \<and> fst (calculate_fundamental_score (Some [(''revenue_growth'', 25), (''profit_margin'', 12),
        (''pe_ratio'', 18), (''debt_to_equity'', 0.4), (''roe'', 22)])) \<le> 100"
proof -
  let ?m = "[(''revenue_growth'', 25), (''profit_margin'', 12),
        (''pe_ratio'', 18), (''debt_to_equity'', 0.4), (''roe'', 22 :: real)]"
  have d: "distinct (map fst ?m)" by simp
  have v: "fst (calculate_fundamental_score (Some ?m)) = 91.75"
    by (simp add: calculate_fundamental_score_def fundamental_weights_def normalize_score_def
        py_round2_def round_half_even_def)
  from d agent_scores_in_range [of ?m] v show ?thesis by blast
qed

section \<open>Missing price history\<close>

text \<open>
  Claim C9. When the price history is missing (the provider raises) or empty (it
  returns a frame with no rows), \<open>TechnicalAnalyst.analyze\<close> returns its default
  result with score 50 and bias "Unknown", and \<open>RiskManager.analyze\<close> returns risk
  level "Unknown" with volatility 0, max drawdown 0 and no metrics. Both calls return;
  neither raises, whatever the computations on a non-empty frame would do.
\<close>

theorem analyze_without_price_history:
  assumes "history = Raised \<or> history = Returned []"
  shows "(\<exists>result. technical_analyze ta_on_data history = Inr result
            \<and> py_get result ''score'' = Some (PyInt 50)
            \<and> py_get result ''bias'' = Some (PyStr ''Unknown''))
       \<and> (\<exists>result. risk_analyze rm_on_data history = Inr result
            \<and> py_get result ''risk_level'' = Some (PyStr ''Unknown'')
            \<and> py_get result ''volatility'' = Some (PyInt 0)
            \<and> py_get result ''max_drawdown'' = Some (PyInt 0)
            \<and> py_get result ''metrics'' = Some (PyDict []))"
proof -
  from assms have "ta_fetch_price_data history = None" "rm_fetch_price_data history = None"
    by (auto simp: ta_fetch_price_data_def rm_fetch_price_data_def)
  then have "technical_analyze ta_on_data history = Inr ta_default_result"
    "risk_analyze rm_on_data history = Inr rm_default_result"
    by (simp_all add: technical_analyze_def risk_analyze_def)
  then show ?thesis
    by (simp add: ta_default_result_def rm_default_result_def)
qed

theorem analyze_without_price_history_witness:
  "(\<exists>result. technical_analyze (\<lambda>df. Inl KeyError) (Returned []) = Inr result
       \<and> py_get result ''score'' = Some (PyInt 50)
       \<and> py_get result ''bias'' = Some (PyStr ''Unknown''))
   \<and> (\<exists>result. risk_analyze (\<lambda>df. Inl ValueError) (Returned []) = Inr result
       \<and> py_get result ''risk_level'' = Some (PyStr ''Unknown'')
       \<and> py_get result ''volatility'' = Some (PyInt 0)
       \<and> py_get result ''max_drawdown'' = Some (PyInt 0)
       \<and> py_get result ''metrics'' = Some (PyDict []))"
  using analyze_without_price_history
    [of "Returned []" "\<lambda>df. Inl KeyError" "\<lambda>df. Inl ValueError"]
  by simp

section \<open>TechnicalAnalyst: the RSI term\<close>

text \<open>
  Claim C6 says the RSI term lowers the score on both sides of the 30 to 70 band. On
  the oversold side the source adds \<open>(30 - rsi) * 0.5\<close>, which is positive, under the
  comment "Penalize oversold". With an RSI of 20 and every other indicator absent the
  term is +5 and the score is 55, above the 50 of a neutral RSI; on the overbought side
  an RSI of 80 gives -5 and a score of 45.
\<close>

theorem oversold_rsi_raises_score:
  "rsi_contribution 20 = 5
   \<and> calculate_technical_score
        \<lparr> rsi = Some 20, trend = None, macd_histogram = None, price_position = None \<rparr> = 55
   \<and> calculate_technical_score
        \<lparr> rsi = Some 50, trend = None, macd_histogram = None, price_position = None \<rparr> = 50
   \<and> rsi_contribution 80 = - 5
   \<and> calculate_technical_score
        \<lparr> rsi = Some 80, trend = None, macd_histogram = None, price_position = None \<rparr> = 45"
  by (simp add: calculate_technical_score_def rsi_contribution_def trend_contribution_def
      macd_contribution_def dict_get_def py_round2_def round_half_even_def)

section \<open>The serializer and non-finite numbers\<close>

text \<open>
  Claim C7 says every NaN and every infinity in the payload is replaced by null. A
  stock with no losing day in the lookback makes \<open>calculate_risk_reward_ratio\<close> return
  the built-in \<open>float('inf')\<close>. The serializer replaces infinities only in its numpy
  branch; a built-in float reaches the final \<open>pd.isna\<close> test, which holds of NaN but not
  of an infinity, and is returned as it is. The numpy infinity of the same payload is
  replaced.
\<close>

theorem infinite_risk_reward_is_emitted:
  "calculate_risk_reward_ratio [100, 101, 103] 252 = PyFloat PosInf
   \<and> make_json_serializable
        (PyDict [(''risk_reward_ratio'', calculate_risk_reward_ratio [100, 101, 103] 252)])
       = PyDict [(''risk_reward_ratio'', PyFloat PosInf)]
   \<and> has_non_finite (make_json_serializable
        (PyDict [(''risk_reward_ratio'', calculate_risk_reward_ratio [100, 101, 103] 252)]))
   \<and> make_json_serializable (PyDict [(''sharpe_ratio'', NpFloating PosInf)])
       = PyDict [(''sharpe_ratio'', PyNone)]"
proof -
  have r: "calculate_risk_reward_ratio [100, 101, 103] 252 = PyFloat PosInf"
    by (simp add: calculate_risk_reward_ratio_def tail_def pct_change_def)
  show ?thesis
    by (simp add: r isnan_def isinf_def)
qed

end
